theory Spec2Isabelle
  imports Main
begin

section \<open>The embedding requester script\<close>

text \<open>
  The repository is one Python script, \<^verbatim>\<open>ai_and_data/openai_generate_vector.py\<close>:
  \<^verbatim>\<open>
  openai.api_type = "azure"
  openai.api_key = "YOUR_API_KEY"
  openai.azure_endpoint = "https://YOUR_AZURE_OPENAI_ENDPOINT/"
  openai.api_version = "2023-05-15"

  text = "Mountains are beautiful in the fall."
  response = openai.embeddings.create(input=[text], model="ada-embedding-deployment")
  embedding = response.data[0].embedding
  print(embedding)
  \<close>
  The script is modelled statement by statement as a function on an explicit world:
  the attributes of the imported module, the log of calls of the client library and
  the characters written to standard output. What a call of the client library
  returns or raises is a parameter; the library, which is not part of the
  repository, is described separately below, with what it sends on the wire.
\<close>

subsection \<open>Data\<close>

text \<open>
  The four module attributes the script assigns. An attribute the script has not yet
  assigned holds whatever the import left there, possibly nothing.
\<close>

record openai_module =
  api_type :: "string option"
  api_key :: "string option"
  azure_endpoint :: "string option"
  api_version :: "string option"

text \<open>
  What one call of \<^verbatim>\<open>openai.embeddings.create\<close> hands to the service: the module
  attributes as they are when the call is made, and the two keyword arguments.
\<close>

record request =
  settings :: openai_module
  input :: "string list"
  model :: string

text \<open>
  The response object: a list \<^verbatim>\<open>data\<close> of entries, each with a field
  \<^verbatim>\<open>embedding\<close>, a list of floats. Floats are kept abstract (type \<open>'f\<close>).
\<close>

record 'f entry =
  embedding :: "'f list"

record 'f response =
  data :: "'f entry list"

text \<open>
  The exceptions that can end the script: whatever the call raises (type \<open>'x\<close>:
  rejected credential, unreachable endpoint, unknown deployment, ...) and the
  \<^verbatim>\<open>IndexError\<close> of a subscript out of range.
\<close>

datatype 'x error = CallFailed 'x | IndexError

datatype 'x outcome = Finished | Uncaught "'x error"

text \<open>
  The world. The field \<open>surroundings\<close> stands for everything else the process could
  reach (standard input, environment variables, files); no statement of the script
  names any of it.
\<close>

record 'env world =
  openai :: openai_module
  requests :: "request list"
  stdout :: string
  surroundings :: 'env

text \<open>
  The call as the script meets it: what the \<open>n\<close>-th call of
  \<^verbatim>\<open>openai.embeddings.create\<close> made by the process (counted from 0) returns or
  raises, given the request.
\<close>

type_synonym ('x, 'f) remote = "nat \<Rightarrow> request \<Rightarrow> 'x + 'f response"

text \<open>
  The literal values of the script that its comments mark as placeholders to replace
  (key, endpoint, deployment name) and the text to embed.
\<close>

record literals =
  lit_api_key :: string
  lit_azure_endpoint :: string
  lit_text :: string
  lit_model :: string

definition source_literals :: literals where
  "source_literals =
     \<lparr>lit_api_key = ''YOUR_API_KEY'',
      lit_azure_endpoint = ''https://YOUR_AZURE_OPENAI_ENDPOINT/'',
      lit_text = ''Mountains are beautiful in the fall.'',
      lit_model = ''ada-embedding-deployment''\<rparr>"

subsection \<open>Python built-ins the script relies on\<close>

text \<open>\<^verbatim>\<open>sep.join(parts)\<close>.\<close>

fun str_join :: "string \<Rightarrow> string list \<Rightarrow> string" where
  "str_join sep [] = []"
| "str_join sep [p] = p"
| "str_join sep (p # q # ps) = p @ sep @ str_join sep (q # ps)"

text \<open>
  \<^verbatim>\<open>str\<close> of a list: the \<^verbatim>\<open>repr\<close> of each element, separated by a comma and a
  space, in square brackets. The \<^verbatim>\<open>repr\<close> of a float is the parameter \<open>repr\<close>.
\<close>

definition str_list :: "('f \<Rightarrow> string) \<Rightarrow> 'f list \<Rightarrow> string" where
  "str_list repr xs = ''['' @ str_join '', '' (map repr xs) @ '']''"

text \<open>\<^verbatim>\<open>xs[0]\<close>: raises \<^verbatim>\<open>IndexError\<close> on the empty list.\<close>

definition subscript0 :: "'a list \<Rightarrow> 'x error + 'a" where
  "subscript0 xs = (case xs of [] \<Rightarrow> Inl IndexError | x # _ \<Rightarrow> Inr x)"

text \<open>
  \<^verbatim>\<open>print(v)\<close> for a list \<open>v\<close>: writes \<^verbatim>\<open>str(v)\<close> and then the line terminator
  (character 10) to standard output.
\<close>

definition print_py :: "('f \<Rightarrow> string) \<Rightarrow> 'f list \<Rightarrow> 'env world \<Rightarrow> 'env world" where
  "print_py repr v w = w\<lparr>stdout := stdout w @ str_list repr v @ [CHR 0x0A]\<rparr>"

subsection \<open>The statements\<close>

definition set_api_type :: "string \<Rightarrow> 'env world \<Rightarrow> 'env world" where
  "set_api_type v w = w\<lparr>openai := (openai w)\<lparr>api_type := Some v\<rparr>\<rparr>"

definition set_api_key :: "string \<Rightarrow> 'env world \<Rightarrow> 'env world" where
  "set_api_key v w = w\<lparr>openai := (openai w)\<lparr>api_key := Some v\<rparr>\<rparr>"

definition set_azure_endpoint :: "string \<Rightarrow> 'env world \<Rightarrow> 'env world" where
  "set_azure_endpoint v w = w\<lparr>openai := (openai w)\<lparr>azure_endpoint := Some v\<rparr>\<rparr>"

definition set_api_version :: "string \<Rightarrow> 'env world \<Rightarrow> 'env world" where
  "set_api_version v w = w\<lparr>openai := (openai w)\<lparr>api_version := Some v\<rparr>\<rparr>"

text \<open>
  \<^verbatim>\<open>openai.embeddings.create(input=..., model=...)\<close>: one call of the library
  function. The call is logged whether it returns or raises; a failure of the call
  is raised. How many times the library sends the request within the call is not
  decided here, see \<open>client_call\<close>.
\<close>

definition embeddings_create ::
  "('x, 'f) remote \<Rightarrow> string list \<Rightarrow> string \<Rightarrow> 'env world
     \<Rightarrow> ('x error + 'f response) \<times> 'env world" where
  "embeddings_create remote inp mdl w =
     (let req = \<lparr>settings = openai w, input = inp, model = mdl\<rparr>
      in (case remote (length (requests w)) req of
            Inl x \<Rightarrow> Inl (CallFailed x)
          | Inr r \<Rightarrow> Inr r,
          w\<lparr>requests := requests w @ [req]\<rparr>))"

subsection \<open>The script\<close>

text \<open>
  The statements in source order. An exception is caught nowhere: the first one ends
  the run with the world as it is at that moment.
\<close>

definition script ::
  "('x, 'f) remote \<Rightarrow> ('f \<Rightarrow> string) \<Rightarrow> literals \<Rightarrow> 'env world
     \<Rightarrow> 'x outcome \<times> 'env world" where
  "script remote repr L w0 =
     (let w1 = set_api_type ''azure'' w0;
          w2 = set_api_key (lit_api_key L) w1;
          w3 = set_azure_endpoint (lit_azure_endpoint L) w2;
          w4 = set_api_version ''2023-05-15'' w3;
          text_var = lit_text L;
          (called, w5) = embeddings_create remote [text_var] (lit_model L) w4
      in case called of
           Inl e \<Rightarrow> (Uncaught e, w5)
         | Inr resp \<Rightarrow>
             (case subscript0 (data resp) of
                Inl e \<Rightarrow> (Uncaught e, w5)
              | Inr first \<Rightarrow> (Finished, print_py repr (embedding first) w5)))"

text \<open>
  The world when the first statement runs: the module as the import left it, no call
  made, nothing written.
\<close>

definition process_start :: "openai_module \<Rightarrow> 'env \<Rightarrow> 'env world" where
  "process_start m env = \<lparr>openai = m, requests = [], stdout = [], surroundings = env\<rparr>"

text \<open>The script as it is in the repository.\<close>

definition main ::
  "('x, 'f) remote \<Rightarrow> ('f \<Rightarrow> string) \<Rightarrow> openai_module \<Rightarrow> 'env
     \<Rightarrow> 'x outcome \<times> 'env world" where
  "main remote repr m env = script remote repr source_literals (process_start m env)"

subsection \<open>What the script configures and sends\<close>

definition configured :: "literals \<Rightarrow> openai_module" where
  "configured L =
     \<lparr>api_type = Some ''azure'',
      api_key = Some (lit_api_key L),
      azure_endpoint = Some (lit_azure_endpoint L),
      api_version = Some ''2023-05-15''\<rparr>"

definition sent :: "literals \<Rightarrow> request" where
  "sent L = \<lparr>settings = configured L, input = [lit_text L], model = lit_model L\<rparr>"

text \<open>The world in which the call is made: only the module attributes have changed.\<close>

definition at_call :: "literals \<Rightarrow> 'env world \<Rightarrow> 'env world" where
  "at_call L w0 = w0\<lparr>openai := configured L\<rparr>"

text \<open>
  The part of an answer that the statement \<^verbatim>\<open>response.data[0].embedding\<close> reaches:
  the first entry, when the call returned and the list has one.
\<close>

definition first_entry :: "'x + 'f response \<Rightarrow> 'f entry option" where
  "first_entry answer =
     (case answer of
        Inl x \<Rightarrow> None
      | Inr r \<Rightarrow> (case data r of [] \<Rightarrow> None | e # _ \<Rightarrow> Some e))"

subsection \<open>The client library and the interpreter\<close>

text \<open>
  The client library is not part of the repository. Its send loop is described here
  as its 1.x releases document it (the only releases with the names the script
  uses): a call may be refused before anything is sent (missing credentials); else
  the request is posted, and posted again after a transient failure (connection
  error, timeout, status 408, 409, 429 or 5xx), at most \<^verbatim>\<open>max_retries\<close> more times;
  any other failure, and a transient one once the budget is used up, is raised.
  \<^verbatim>\<open>openai.max_retries\<close> is a module attribute the script never assigns, so the
  default of the library applies.
\<close>

datatype 'x wire_failure = Retryable 'x | Final 'x

fun reason :: "'x wire_failure \<Rightarrow> 'x" where
  "reason (Retryable x) = x"
| "reason (Final x) = x"

text \<open>The network: the answer to the \<open>k\<close>-th post of a call (counted from 0).\<close>

type_synonym ('x, 'f) wire = "nat \<Rightarrow> request \<Rightarrow> 'x wire_failure + 'f response"

text \<open>
  The loop, with the retries left and the number of posts made so far; it returns
  what the call returns or raises, and the number of posts made.
\<close>

fun send_loop ::
  "nat \<Rightarrow> ('x, 'f) wire \<Rightarrow> nat \<Rightarrow> request \<Rightarrow> ('x + 'f response) \<times> nat" where
  "send_loop 0 net k req =
     (case net k req of
        Inr r \<Rightarrow> (Inr r, Suc k)
      | Inl f \<Rightarrow> (Inl (reason f), Suc k))"
| "send_loop (Suc left) net k req =
     (case net k req of
        Inr r \<Rightarrow> (Inr r, Suc k)
      | Inl (Final x) \<Rightarrow> (Inl x, Suc k)
      | Inl (Retryable x) \<Rightarrow> send_loop left net (Suc k) req)"

definition client_call ::
  "(request \<Rightarrow> 'x option) \<Rightarrow> nat \<Rightarrow> ('x, 'f) wire \<Rightarrow> request
     \<Rightarrow> ('x + 'f response) \<times> nat" where
  "client_call refuse max_retries net req =
     (case refuse req of
        Some x \<Rightarrow> (Inl x, 0)
      | None \<Rightarrow> send_loop max_retries net 0 req)"

definition DEFAULT_MAX_RETRIES :: nat where
  "DEFAULT_MAX_RETRIES = 2"

text \<open>
  The calls of a process that go through the library: the \<open>n\<close>-th call meets the
  network \<open>nets n\<close>.
\<close>

definition via_client ::
  "(request \<Rightarrow> 'x option) \<Rightarrow> nat \<Rightarrow> (nat \<Rightarrow> ('x, 'f) wire) \<Rightarrow> ('x, 'f) remote" where
  "via_client refuse max_retries nets n req = fst (client_call refuse max_retries (nets n) req)"

text \<open>The number of posts that left the process, given the log of its calls.\<close>

definition outbound ::
  "(request \<Rightarrow> 'x option) \<Rightarrow> nat \<Rightarrow> (nat \<Rightarrow> ('x, 'f) wire) \<Rightarrow> request list \<Rightarrow> nat" where
  "outbound refuse max_retries nets calls =
     sum_list (map (\<lambda>(n, req). snd (client_call refuse max_retries (nets n) req))
                   (enumerate 0 calls))"



subsection \<open>Stand-ins for the service\<close>

text \<open>A service that gives the same answer to every attempt.\<close>

definition always :: "'x + 'f response \<Rightarrow> ('x, 'f) remote" where
  "always answer n req = answer"

text \<open>A library that refuses no call before sending.\<close>

definition no_refusal :: "request \<Rightarrow> 'x option" where
  "no_refusal req = None"


definition unreachable :: "'x \<Rightarrow> nat \<Rightarrow> ('x, 'f) wire" where
  "unreachable x n k req = Inl (Retryable x)"

definition flaky :: "'x \<Rightarrow> 'f response \<Rightarrow> nat \<Rightarrow> ('x, 'f) wire" where
  "flaky x r n k req = (if k = 0 then Inl (Retryable x) else Inr r)"


definition unset_module :: openai_module where
  "unset_module = \<lparr>api_type = None, api_key = None, azure_endpoint = None, api_version = None\<rparr>"

text \<open>
  Sample answers. In the samples a float is written as the text Python shows for it,
  so that \<^verbatim>\<open>repr\<close> is the identity.
\<close>

definition sample_entry :: "string entry" where
  "sample_entry = \<lparr>embedding = [''0.1'', ''-2.5'']\<rparr>"

definition other_entry :: "string entry" where
  "other_entry = \<lparr>embedding = [''7.0'']\<rparr>"

definition sample_response :: "string response" where
  "sample_response = \<lparr>data = [sample_entry]\<rparr>"

definition longer_response :: "string response" where
  "longer_response = \<lparr>data = [sample_entry, other_entry]\<rparr>"

definition empty_response :: "string response" where
  "empty_response = \<lparr>data = []\<rparr>"

section \<open>Properties\<close>

subsection \<open>The configuration statements\<close>

lemma configure_openai:
  "openai (set_api_version v4 (set_azure_endpoint v3 (set_api_key v2 (set_api_type v1 w)))) =
     \<lparr>api_type = Some v1, api_key = Some v2, azure_endpoint = Some v3, api_version = Some v4\<rparr>"
  by (simp add: set_api_type_def set_api_key_def set_azure_endpoint_def set_api_version_def)

lemma configure_rest:
  "requests (set_api_version v4 (set_azure_endpoint v3 (set_api_key v2 (set_api_type v1 w)))) =
     requests w"
  "stdout (set_api_version v4 (set_azure_endpoint v3 (set_api_key v2 (set_api_type v1 w)))) =
     stdout w"
  "surroundings (set_api_version v4 (set_azure_endpoint v3 (set_api_key v2 (set_api_type v1 w)))) =
     surroundings w"
  by (simp_all add: set_api_type_def set_api_key_def set_azure_endpoint_def set_api_version_def)

lemma configure_at_call:
  "set_api_version ''2023-05-15'' (set_azure_endpoint (lit_azure_endpoint L)
     (set_api_key (lit_api_key L) (set_api_type ''azure'' w0))) = at_call L w0"
  by (simp add: set_api_type_def set_api_key_def set_azure_endpoint_def set_api_version_def
      at_call_def configured_def)

lemma script_unfold:
  "script remote repr L w0 =
     (let w5 = (at_call L w0)\<lparr>requests := requests w0 @ [sent L]\<rparr>
      in case remote (length (requests w0)) (sent L) of
           Inl x \<Rightarrow> (Uncaught (CallFailed x), w5)
         | Inr resp \<Rightarrow>
             (case data resp of
                [] \<Rightarrow> (Uncaught IndexError, w5)
              | first # _ \<Rightarrow> (Finished, print_py repr (embedding first) w5)))"
  unfolding script_def Let_def configure_at_call
  by (simp add: embeddings_create_def at_call_def sent_def subscript0_def
      split: sum.splits list.splits)

subsection \<open>The three ways a run ends\<close>

lemma script_call_failed:
  assumes "remote (length (requests w0)) (sent L) = Inl x"
  shows "script remote repr L w0 =
           (Uncaught (CallFailed x), (at_call L w0)\<lparr>requests := requests w0 @ [sent L]\<rparr>)"
  using assms by (simp add: script_unfold)

lemma script_no_entry:
  assumes "remote (length (requests w0)) (sent L) = Inr resp" and "data resp = []"
  shows "script remote repr L w0 =
           (Uncaught IndexError, (at_call L w0)\<lparr>requests := requests w0 @ [sent L]\<rparr>)"
  using assms by (simp add: script_unfold)

lemma script_printed:
  assumes "remote (length (requests w0)) (sent L) = Inr resp" and "data resp = e # es"
  shows "script remote repr L w0 =
           (Finished,
            print_py repr (embedding e) ((at_call L w0)\<lparr>requests := requests w0 @ [sent L]\<rparr>))"
  using assms by (simp add: script_unfold)

lemma script_requests:
  "requests (snd (script remote repr L w0)) = requests w0 @ [sent L]"
  by (simp add: script_unfold Let_def print_py_def split: sum.splits list.splits)

lemma script_openai:
  "openai (snd (script remote repr L w0)) = configured L"
  by (simp add: script_unfold Let_def print_py_def at_call_def split: sum.splits list.splits)


lemma script_stdout:
  "stdout (snd (script remote repr L w0)) =
     stdout w0 @
     (case first_entry (remote (length (requests w0)) (sent L)) of
        None \<Rightarrow> []
      | Some e \<Rightarrow> str_list repr (embedding e) @ [CHR 0x0A])"
  by (simp add: script_unfold Let_def print_py_def at_call_def first_entry_def
      split: sum.splits list.splits)

lemma script_outcome:
  "fst (script remote repr L w0) =
     (case remote (length (requests w0)) (sent L) of
        Inl x \<Rightarrow> Uncaught (CallFailed x)
      | Inr resp \<Rightarrow> (case data resp of [] \<Rightarrow> Uncaught IndexError | e # es \<Rightarrow> Finished))"
  by (simp add: script_unfold Let_def split: sum.splits list.splits)

lemma embeddings_create_openai:
  "openai (snd (embeddings_create remote inp mdl w)) = openai w"
  by (simp add: embeddings_create_def Let_def)

lemma print_py_openai:
  "openai (print_py repr v w) = openai w"
  by (simp add: print_py_def)

lemma process_start_fields:
  "openai (process_start m env) = m"
  "requests (process_start m env) = []"
  "stdout (process_start m env) = []"
  "surroundings (process_start m env) = env"
  by (simp_all add: process_start_def)

lemma at_call_process_start:
  "(at_call L (process_start m env))\<lparr>requests := [sent L]\<rparr> =
     \<lparr>openai = configured L, requests = [sent L], stdout = [], surroundings = env\<rparr>"
  by (simp add: at_call_def process_start_def)

subsection \<open>The text of a list\<close>





subsection \<open>The send loop\<close>

lemma send_loop_posts:
  "Suc k \<le> snd (send_loop left net k req) \<and> snd (send_loop left net k req) \<le> Suc (k + left)"
proof (induction left arbitrary: k)
  case 0
  show ?case by (simp split: sum.splits)
next
  case (Suc left)
  show ?case
  proof (cases "net k req")
    case (Inr r)
    then show ?thesis by simp
  next
    case (Inl f)
    show ?thesis
    proof (cases f)
      case (Final x)
      with Inl show ?thesis by simp
    next
      case (Retryable x)
      with Inl Suc.IH [of "Suc k"] show ?thesis by simp
    qed
  qed
qed

lemma outbound_one_call:
  "outbound refuse max_retries nets [req] = snd (client_call refuse max_retries (nets 0) req)"
  by (simp add: outbound_def)

lemma client_call_posts_le:
  "snd (client_call refuse max_retries net req) \<le> Suc max_retries"
  using send_loop_posts [of 0 max_retries net req]
  by (simp add: client_call_def split: option.splits)



section \<open>The specification, claim by claim\<close>

text \<open>
  C1. As stated (the text on standard output equals the text of the first entry's
  embedding exactly) the claim fails: \<^verbatim>\<open>print\<close> ends the line. With the sample
  response, the script as it is in the repository writes the text of the embedding
  and a line terminator, which is not the text of the embedding.
\<close>

theorem C1_text_alone_counterexample:
  "always (Inr sample_response) 0 (sent source_literals)
     = (Inr sample_response :: string + string response)
   \<and> data sample_response = [sample_entry]
   \<and> stdout (snd (main (always (Inr sample_response) :: (string, string) remote)
                    id unset_module ()))
       \<noteq> str_list id (embedding sample_entry)"
  by (simp add: main_def script_stdout process_start_fields always_def first_entry_def
      str_list_def sample_response_def sample_entry_def)

text \<open>
  C1, amended. When the call returns a response whose list has at least one entry,
  standard output holds exactly the text of the embedding of the entry at index 0,
  followed by one line terminator.
\<close>

theorem C1_printed_text:
  assumes "remote 0 (sent L) = Inr resp" and "data resp = e # es"
  shows "stdout (snd (script remote repr L (process_start m env))) =
           str_list repr (embedding e) @ [CHR 0x0A]"
  using assms by (simp add: script_stdout process_start_fields first_entry_def)

theorem C1_printed_text_witness:
  "always (Inr longer_response) 0 (sent source_literals)
     = (Inr longer_response :: string + string response)
   \<and> data longer_response = sample_entry # [other_entry]
   \<and> stdout (snd (script (always (Inr longer_response) :: (string, string) remote)
                     id source_literals (process_start unset_module ())))
       = ''[0.1, -2.5]'' @ [CHR 0x0A]"
  using C1_printed_text [of "always (Inr longer_response) :: (string, string) remote"
      source_literals longer_response sample_entry "[other_entry]" id unset_module "()"]
  by (simp add: always_def str_list_def longer_response_def sample_entry_def)

text \<open>
  C2. When the call returns a response whose list is empty, the run ends with an
  uncaught \<^verbatim>\<open>IndexError\<close> and standard output is empty.
\<close>

theorem C2_empty_list_fails:
  assumes "remote 0 (sent L) = Inr resp" and "data resp = []"
  shows "fst (script remote repr L (process_start m env)) = Uncaught IndexError
       \<and> stdout (snd (script remote repr L (process_start m env))) = []"
  using assms
  by (simp add: script_outcome script_stdout process_start_fields first_entry_def)

theorem C2_empty_list_fails_witness:
  "always (Inr empty_response) 0 (sent source_literals)
     = (Inr empty_response :: string + string response)
   \<and> data empty_response = []
   \<and> fst (script (always (Inr empty_response) :: (string, string) remote)
             id source_literals (process_start unset_module ())) = Uncaught IndexError
   \<and> stdout (snd (script (always (Inr empty_response) :: (string, string) remote)
             id source_literals (process_start unset_module ()))) = []"
  using C2_empty_list_fails [of "always (Inr empty_response) :: (string, string) remote"
      source_literals empty_response id unset_module "()"]
  by (simp add: always_def empty_response_def)

text \<open>
  C3. Whatever the literals (the text among them), the service and the module at
  start, the run makes one request, and its input is a list of exactly one string,
  the text literal.
\<close>

theorem C3_one_input_string:
  "map input (requests (snd (script remote repr L (process_start m env)))) = [[lit_text L]]"
  by (simp add: script_requests process_start_fields sent_def)

text \<open>
  C4. Replacing the deployment/model literal by \<open>d\<close> replaces the model field of the
  request by \<open>d\<close> and changes nothing else of what is sent: same number of requests,
  same settings (api_type, credential, endpoint, api_version), same input list.
\<close>

theorem C4_model_only:
  "requests (snd (script remote repr (L\<lparr>lit_model := d\<rparr>) (process_start m env))) =
     map (\<lambda>r. r\<lparr>model := d\<rparr>) (requests (snd (script remote repr L (process_start m env))))"
  by (simp add: script_requests process_start_fields sent_def configured_def)

text \<open>
  C5. As stated (a transient failure of the first attempt means exactly one outbound
  attempt and an abnormal end) the claim fails: the script leaves the retry budget
  of the client library at its default, and within the one call the script makes
  the library posts the request again. Here the first post fails with a transient
  failure; two posts leave the process and the run finishes.
\<close>

theorem C5_client_retries_counterexample:
  "flaky ''APIConnectionError'' sample_response 0 0 (sent source_literals)
     = Inl (Retryable ''APIConnectionError'')
   \<and> outbound no_refusal DEFAULT_MAX_RETRIES (flaky ''APIConnectionError'' sample_response)
        (requests (snd (script
           (via_client no_refusal DEFAULT_MAX_RETRIES (flaky ''APIConnectionError'' sample_response))
           id source_literals (process_start unset_module ())))) = 2
   \<and> fst (script
        (via_client no_refusal DEFAULT_MAX_RETRIES (flaky ''APIConnectionError'' sample_response))
        id source_literals (process_start unset_module ())) = Finished"
  by (simp add: script_requests script_outcome process_start_fields outbound_one_call
      via_client_def client_call_def no_refusal_def DEFAULT_MAX_RETRIES_def numeral_2_eq_2
      flaky_def sample_response_def)

text \<open>
  C5, amended. With a retry budget of 0, a run whose first post fails with a
  transient failure makes exactly one outbound attempt and ends at once with that
  failure uncaught. With any budget (the script leaves the default of the library,
  2, in force) the script itself never repeats the call: when the call raises, the
  script has called the library once, at most \<open>max_retries + 1\<close> posts have left
  the process, nothing was printed and the run ends with the raised failure uncaught.
\<close>

theorem C5_script_never_retries:
  "(refuse (sent L) = None \<and> nets 0 0 (sent L) = Inl (Retryable x) \<longrightarrow>
      script (via_client refuse 0 nets) repr L (process_start m env) =
        (Uncaught (CallFailed x),
         \<lparr>openai = configured L, requests = [sent L], stdout = [], surroundings = env\<rparr>)
      \<and> outbound refuse 0 nets
           (requests (snd (script (via_client refuse 0 nets) repr L (process_start m env)))) = 1)
   \<and> (via_client refuse max_retries nets 0 (sent L) = Inl y \<longrightarrow>
      script (via_client refuse max_retries nets) repr L (process_start m env) =
        (Uncaught (CallFailed y),
         \<lparr>openai = configured L, requests = [sent L], stdout = [], surroundings = env\<rparr>)
      \<and> outbound refuse max_retries nets
           (requests (snd (script (via_client refuse max_retries nets) repr L
              (process_start m env)))) \<le> max_retries + 1)"
proof (intro conjI impI)
  assume a: "refuse (sent L) = None \<and> nets 0 0 (sent L) = Inl (Retryable x)"
  then have c: "client_call refuse 0 (nets 0) (sent L) = (Inl x, 1)"
    by (simp add: client_call_def)
  then have "via_client refuse 0 nets 0 (sent L) = Inl x"
    by (simp add: via_client_def)
  then show "script (via_client refuse 0 nets) repr L (process_start m env) =
        (Uncaught (CallFailed x),
         \<lparr>openai = configured L, requests = [sent L], stdout = [], surroundings = env\<rparr>)"
    using script_call_failed [of "via_client refuse 0 nets" "process_start m env" L x repr]
    by (simp add: process_start_fields at_call_process_start)
  from c show "outbound refuse 0 nets
      (requests (snd (script (via_client refuse 0 nets) repr L (process_start m env)))) = 1"
    by (simp add: script_requests process_start_fields outbound_one_call)
next
  assume "via_client refuse max_retries nets 0 (sent L) = Inl y"
  then show "script (via_client refuse max_retries nets) repr L (process_start m env) =
        (Uncaught (CallFailed y),
         \<lparr>openai = configured L, requests = [sent L], stdout = [], surroundings = env\<rparr>)"
    using script_call_failed [of "via_client refuse max_retries nets" "process_start m env" L y repr]
    by (simp add: process_start_fields at_call_process_start)
  show "outbound refuse max_retries nets
      (requests (snd (script (via_client refuse max_retries nets) repr L
         (process_start m env)))) \<le> max_retries + 1"
    using client_call_posts_le [of refuse max_retries "nets 0" "sent L"]
    by (simp add: script_requests process_start_fields outbound_one_call)
qed

theorem C5_script_never_retries_witness:
  "(no_refusal (sent source_literals) :: string option) = None
   \<and> (unreachable ''APIConnectionError'' 0 0 (sent source_literals)
        :: string wire_failure + string response) = Inl (Retryable ''APIConnectionError'')
   \<and> script (via_client no_refusal 0 (unreachable ''APIConnectionError'')
              :: (string, string) remote)
        id source_literals (process_start unset_module ()) =
       (Uncaught (CallFailed ''APIConnectionError''),
        \<lparr>openai = configured source_literals, requests = [sent source_literals], stdout = [],
         surroundings = ()\<rparr>)
   \<and> outbound no_refusal 0 (unreachable ''APIConnectionError'' :: nat \<Rightarrow> (string, string) wire)
        (requests (snd (script (via_client no_refusal 0 (unreachable ''APIConnectionError'')
                                  :: (string, string) remote)
           id source_literals (process_start unset_module ())))) = 1
   \<and> (via_client no_refusal DEFAULT_MAX_RETRIES (unreachable ''APIConnectionError'') 0
         (sent source_literals) :: string + string response) = Inl ''APIConnectionError''
   \<and> script (via_client no_refusal DEFAULT_MAX_RETRIES (unreachable ''APIConnectionError'')
              :: (string, string) remote)
        id source_literals (process_start unset_module ()) =
       (Uncaught (CallFailed ''APIConnectionError''),
        \<lparr>openai = configured source_literals, requests = [sent source_literals], stdout = [],
         surroundings = ()\<rparr>)
   \<and> outbound no_refusal DEFAULT_MAX_RETRIES
        (unreachable ''APIConnectionError'' :: nat \<Rightarrow> (string, string) wire)
        (requests (snd (script (via_client no_refusal DEFAULT_MAX_RETRIES
                                   (unreachable ''APIConnectionError'')
                                  :: (string, string) remote)
           id source_literals (process_start unset_module ())))) \<le> DEFAULT_MAX_RETRIES + 1"
proof -
  have r: "(no_refusal (sent source_literals) :: string option) = None"
    by (simp add: no_refusal_def)
  have f: "(unreachable ''APIConnectionError'' 0 0 (sent source_literals)
        :: string wire_failure + string response) = Inl (Retryable ''APIConnectionError'')"
    by (simp add: unreachable_def)
  have v: "(via_client no_refusal DEFAULT_MAX_RETRIES (unreachable ''APIConnectionError'') 0
         (sent source_literals) :: string + string response) = Inl ''APIConnectionError''"
    by (simp add: via_client_def client_call_def no_refusal_def unreachable_def
        DEFAULT_MAX_RETRIES_def numeral_2_eq_2)
  show ?thesis
    using r f v
      C5_script_never_retries [of "no_refusal :: request \<Rightarrow> string option" source_literals
        "unreachable ''APIConnectionError'' :: nat \<Rightarrow> (string, string) wire"
        "''APIConnectionError''" id unset_module "()" DEFAULT_MAX_RETRIES
        "''APIConnectionError''"]
    by blast
qed

text \<open>
  C6. Every failure ends the run uncaught, as the very exception that was raised,
  with nothing on standard output: a failure \<open>x\<close> of the call (rejected credential,
  wrong endpoint, unreachable network, unknown deployment) as \<open>CallFailed x\<close>, an
  empty result list as \<^verbatim>\<open>IndexError\<close>. The final world is the configured module,
  the one request and an empty standard output.
\<close>

theorem C6_failures_propagate:
  "(remote 0 (sent L) = Inl x \<longrightarrow>
      script remote repr L (process_start m env) =
        (Uncaught (CallFailed x),
         \<lparr>openai = configured L, requests = [sent L], stdout = [], surroundings = env\<rparr>))
   \<and> (remote 0 (sent L) = Inr resp \<and> data resp = [] \<longrightarrow>
      script remote repr L (process_start m env) =
        (Uncaught IndexError,
         \<lparr>openai = configured L, requests = [sent L], stdout = [], surroundings = env\<rparr>))"
proof (intro conjI impI)
  assume "remote 0 (sent L) = Inl x"
  then show "script remote repr L (process_start m env) =
        (Uncaught (CallFailed x),
         \<lparr>openai = configured L, requests = [sent L], stdout = [], surroundings = env\<rparr>)"
    using script_call_failed [of remote "process_start m env" L x repr]
    by (simp add: process_start_fields at_call_process_start)
next
  assume "remote 0 (sent L) = Inr resp \<and> data resp = []"
  then show "script remote repr L (process_start m env) =
        (Uncaught IndexError,
         \<lparr>openai = configured L, requests = [sent L], stdout = [], surroundings = env\<rparr>)"
    using script_no_entry [of remote "process_start m env" L resp repr]
    by (simp add: process_start_fields at_call_process_start)
qed

theorem C6_failures_propagate_witness:
  "always (Inl ''AuthenticationError'') 0 (sent source_literals)
     = (Inl ''AuthenticationError'' :: string + string response)
   \<and> script (always (Inl ''AuthenticationError'') :: (string, string) remote) id source_literals
        (process_start unset_module ()) =
       (Uncaught (CallFailed ''AuthenticationError''),
        \<lparr>openai = configured source_literals, requests = [sent source_literals], stdout = [],
         surroundings = ()\<rparr>)
   \<and> always (Inr empty_response) 0 (sent source_literals)
       = (Inr empty_response :: string + string response)
   \<and> data empty_response = []
   \<and> script (always (Inr empty_response) :: (string, string) remote) id source_literals
        (process_start unset_module ()) =
       (Uncaught IndexError,
        \<lparr>openai = configured source_literals, requests = [sent source_literals], stdout = [],
         surroundings = ()\<rparr>)"
  using
    C6_failures_propagate [of "always (Inl ''AuthenticationError'') :: (string, string) remote"
      source_literals "''AuthenticationError''" id unset_module "()" empty_response]
    C6_failures_propagate [of "always (Inr empty_response) :: (string, string) remote"
      source_literals "''AuthenticationError''" id unset_module "()" empty_response]
  by (simp add: always_def empty_response_def)

text \<open>
  C7. The four assignments at the start of the script give the module the configured
  values, whatever it held before. Neither later step (the call, the print) changes
  the module, so at the end of every run it still holds them. No value is checked:
  for all literals the request is made, carrying the configured values as they are.
\<close>

theorem C7_configuration_fixed:
  "openai (set_api_version ''2023-05-15'' (set_azure_endpoint (lit_azure_endpoint L)
     (set_api_key (lit_api_key L) (set_api_type ''azure'' w0)))) = configured L
   \<and> openai (snd (embeddings_create remote' inp mdl w)) = openai w
   \<and> openai (print_py repr' v w) = openai w
   \<and> openai (snd (script remote repr L w0)) = configured L
   \<and> requests (snd (script remote repr L w0)) = requests w0 @ [sent L]
   \<and> settings (sent L) = configured L"
  by (simp add: configure_openai configured_def script_openai script_requests
      embeddings_create_openai print_py_openai sent_def)




text \<open>
  C9. The one request of a run carries api_type \<^verbatim>\<open>azure\<close>, api_version
  \<^verbatim>\<open>2023-05-15\<close>, the credential, the endpoint and the deployment/model name of the
  script's literals, and the text in a one-element list.
\<close>

theorem C9_request_parameters:
  "requests (snd (script remote repr L (process_start m env))) =
     [\<lparr>settings = \<lparr>api_type = Some ''azure'',
                    api_key = Some (lit_api_key L),
                    azure_endpoint = Some (lit_azure_endpoint L),
                    api_version = Some ''2023-05-15''\<rparr>,
       input = [lit_text L],
       model = lit_model L\<rparr>]"
  by (simp add: script_requests process_start_fields sent_def configured_def)

text \<open>
  C10. Two runs whose calls are answered alike at index 0 (both fail or return no
  entry, or both return the same first entry) write the same standard output,
  whatever the module held at start, the surroundings (standard input, environment,
  files), the literals and the later entries of the lists. Identical answers are a
  special case.
\<close>

theorem C10_output_from_first_entry:
  assumes "first_entry (remote1 0 (sent L1)) = first_entry (remote2 0 (sent L2))"
  shows "stdout (snd (script remote1 repr L1 (process_start m1 env1))) =
         stdout (snd (script remote2 repr L2 (process_start m2 env2)))"
  using assms by (simp add: script_stdout process_start_fields)

theorem C10_output_from_first_entry_witness:
  "first_entry (always (Inr sample_response) 0 (sent source_literals)
                  :: string + string response)
     = first_entry (always (Inr longer_response) 0
                      (sent (source_literals\<lparr>lit_text := ''Rivers''\<rparr>))
                  :: string + string response)
   \<and> stdout (snd (script (always (Inr sample_response) :: (string, string) remote) id
        source_literals (process_start unset_module ''one'')))
     = stdout (snd (script (always (Inr longer_response) :: (string, string) remote) id
        (source_literals\<lparr>lit_text := ''Rivers''\<rparr>)
        (process_start (configured source_literals) ''another'')))"
proof -
  have h: "first_entry (always (Inr sample_response) 0 (sent source_literals)
                  :: string + string response)
     = first_entry (always (Inr longer_response) 0
                      (sent (source_literals\<lparr>lit_text := ''Rivers''\<rparr>))
                  :: string + string response)"
    by (simp add: always_def first_entry_def sample_response_def longer_response_def)
  show ?thesis
    using h
      C10_output_from_first_entry [of "always (Inr sample_response) :: (string, string) remote"
        source_literals "always (Inr longer_response) :: (string, string) remote"
        "source_literals\<lparr>lit_text := ''Rivers''\<rparr>" id unset_module "''one''"
        "configured source_literals" "''another''"]
    by simp
qed

end
